theory Spec2Isabelle
  imports Complex_Main "HOL-Library.Word"
begin

section \<open>Strings and lists as the Marlin plugin uses them\<close>

text \<open>
  A \<open>QString\<close> is modelled as a \<open>string\<close> of 8-bit characters: the commands and the
  firmware's replies are ASCII text. The plugin uses these operations of it: \<open>contains\<close>
  (case-sensitive substring test), \<open>split\<close> on one separator character (empty parts
  kept, which is Qt's default), \<open>mid\<close> with one argument (the rest of the string from a
  position, empty from the end on), \<open>toFloat\<close> and \<open>toLocal8Bit\<close>.
\<close>

fun starts_with :: "string \<Rightarrow> string \<Rightarrow> bool" where
  "starts_with s [] = True"
| "starts_with [] (p # ps) = False"
| "starts_with (c # cs) (p # ps) = (c = p \<and> starts_with cs ps)"

fun contains :: "string \<Rightarrow> string \<Rightarrow> bool" where
  "contains [] sub = (sub = [])"
| "contains (c # cs) sub = (starts_with (c # cs) sub \<or> contains cs sub)"

fun split :: "char \<Rightarrow> string \<Rightarrow> string list" where
  "split sep [] = [[]]"
| "split sep (c # cs) =
     (if c = sep then [] # split sep cs
      else (case split sep cs of
              [] \<Rightarrow> [[c]]
            | w # ws \<Rightarrow> (c # w) # ws))"

text \<open>The inverse of \<open>split\<close>, to state what \<open>split\<close> computes.\<close>

fun join :: "char \<Rightarrow> string list \<Rightarrow> string" where
  "join sep [] = []"
| "join sep [w] = w"
| "join sep (w # v # ws) = w @ sep # join sep (v # ws)"

definition mid :: "nat \<Rightarrow> string \<Rightarrow> string" where
  "mid pos s = drop pos s"

text \<open>
  \<open>QList::operator[]\<close> requires a valid index: outside the list it is an assertion
  failure in a debug build and an out-of-bounds read otherwise. The model makes that an
  error value.
\<close>

datatype error = IndexOutOfRange

definition at_index :: "'a list \<Rightarrow> nat \<Rightarrow> error + 'a" where
  "at_index xs i = (if i < length xs then Inr (xs ! i) else Inl IndexOutOfRange)"

text \<open>A failed step ends the function: the rest runs only on a value.\<close>

definition bindE :: "error + 'a \<Rightarrow> ('a \<Rightarrow> error + 'b) \<Rightarrow> error + 'b" where
  "bindE m f = (case m of Inl e \<Rightarrow> Inl e | Inr x \<Rightarrow> f x)"

section \<open>The Marlin firmware plugin\<close>

text \<open>
  The four temperature fields of the plugin's \<open>printerStatus\<close> member. The type of a
  temperature value is left open: \<open>QString::toFloat\<close> belongs to Qt, not to this
  repository, and is a parameter of the functions below.
\<close>

record 'f PrinterStatus =
  extruderTemp :: 'f
  extruderTargetTemp :: 'f
  bedTemp :: 'f
  bedTargetTemp :: 'f

datatype 'f signal = printerStatusChanged "'f PrinterStatus"

definition ok_token :: string where "ok_token = ''ok''"
definition wait_token :: string where "wait_token = ''wait''"
definition extruderTemp_token :: string where "extruderTemp_token = ''T:''"
definition bedTemp_token :: string where "bedTemp_token = ''B:''"

text \<open>
  \<open>extractTemp\<close> reads the fields 0 to 3 of the message split at the space character, in
  that order, storing each value before reading the next field, and emits
  \<open>printerStatusChanged\<close> once at the end. The result is the new status with the signals
  emitted, or the error of the first invalid index.
\<close>

definition extractTemp ::
  "(string \<Rightarrow> 'f) \<Rightarrow> string \<Rightarrow> 'f PrinterStatus \<Rightarrow> error + ('f PrinterStatus \<times> 'f signal list)"
where
  "extractTemp toFloat lastMessage printerStatus =
     (let list = split (CHR '' '') lastMessage in
      bindE (at_index list 0) (\<lambda>f0.
        let st1 = printerStatus\<lparr>extruderTemp := toFloat (mid 2 f0)\<rparr> in
        bindE (at_index list 1) (\<lambda>f1.
          let st2 = st1\<lparr>extruderTargetTemp := toFloat (mid 1 f1)\<rparr> in
          bindE (at_index list 2) (\<lambda>f2.
            let st3 = st2\<lparr>bedTemp := toFloat (mid 2 f2)\<rparr> in
            bindE (at_index list 3) (\<lambda>f3.
              let st4 = st3\<lparr>bedTargetTemp := toFloat (mid 1 f3)\<rparr> in
              Inr (st4, [printerStatusChanged st4]))))))"

text \<open>
  \<open>validateCommand\<close>: a message with a temperature token is handed to \<open>extractTemp\<close> and
  then falls through to \<open>return false\<close>; only a message without one is tested for
  \<open>ok\<close> and \<open>wait\<close>.
\<close>

definition validateCommand ::
  "(string \<Rightarrow> 'f) \<Rightarrow> string \<Rightarrow> 'f PrinterStatus
     \<Rightarrow> error + (bool \<times> 'f PrinterStatus \<times> 'f signal list)"
where
  "validateCommand toFloat lastMessage printerStatus =
     (if contains lastMessage extruderTemp_token \<or> contains lastMessage bedTemp_token then
        (case extractTemp toFloat lastMessage printerStatus of
           Inl e \<Rightarrow> Inl e
         | Inr (st, sigs) \<Rightarrow> Inr (False, st, sigs))
      else if contains lastMessage ok_token \<or> contains lastMessage wait_token then
        Inr (True, printerStatus, [])
      else Inr (False, printerStatus, []))"

definition readyForNextCommand ::
  "(string \<Rightarrow> 'f) \<Rightarrow> string \<Rightarrow> 'f PrinterStatus
     \<Rightarrow> error + (bool \<times> 'f PrinterStatus \<times> 'f signal list)"
where
  "readyForNextCommand toFloat lastMessage printerStatus =
     validateCommand toFloat lastMessage printerStatus"

text \<open>
  \<open>translate\<close> returns \<open>command.toLocal8Bit()\<close> and nothing more. A command is text in
  ASCII, on which every local 8-bit encoding is the identity: \<open>toLocal8Bit\<close> maps each
  character to its code.
\<close>

definition toLocal8Bit :: "string \<Rightarrow> 8 word list" where
  "toLocal8Bit s = map of_char s"

definition translate :: "string \<Rightarrow> 8 word list" where
  "translate command = toLocal8Bit command"

definition newline :: "8 word" where
  "newline = 0x0A"

section \<open>A reader of decimal numerals for \<open>toFloat\<close>\<close>

text \<open>
  Where a theorem evaluates the plugin on one message, \<open>toFloat\<close> is instantiated with
  \<open>toFloat_decimal\<close>: the value of a numeral \<open>[+-]digits[.digits]\<close> as a rational number,
  and 0 for a string that is not a numeral, as \<open>QString::toFloat\<close> returns 0.0 when the
  conversion fails. Exponents, \<open>inf\<close> and \<open>nan\<close> are outside this reader, and so is the
  rounding to single precision: the value is the exact one. The reader is therefore
  applied below only to strings on which nothing is rounded, those that are no numeral
  (value 0) and the numerals \<open>185.5\<close>, \<open>185.0\<close>, \<open>85.0\<close>, \<open>60.5\<close> and \<open>60.0\<close>, whose
  values are single-precision numbers. Where the numeral \<open>185.4\<close>, which is none, is
  itself converted, \<open>toFloat\<close> is left open.
\<close>

definition is_digit :: "char \<Rightarrow> bool" where
  "is_digit c = (48 \<le> (of_char c :: nat) \<and> (of_char c :: nat) \<le> 57)"

definition digit_value :: "char \<Rightarrow> nat" where
  "digit_value c = of_char c - 48"

fun digits_value :: "nat \<Rightarrow> string \<Rightarrow> nat" where
  "digits_value acc [] = acc"
| "digits_value acc (c # cs) = digits_value (10 * acc + digit_value c) cs"

definition unsigned_decimal :: "string \<Rightarrow> rat option" where
  "unsigned_decimal s =
     (let ip = takeWhile is_digit s; rest = dropWhile is_digit s in
      case rest of
        [] \<Rightarrow> (if ip = [] then None else Some (of_nat (digits_value 0 ip)))
      | c # fp \<Rightarrow>
          (if c = CHR ''.'' \<and> list_all is_digit fp \<and> \<not> (ip = [] \<and> fp = [])
           then Some (of_nat (digits_value 0 ip) + of_nat (digits_value 0 fp) / 10 ^ length fp)
           else None))"

definition toFloat_decimal :: "string \<Rightarrow> rat" where
  "toFloat_decimal s =
     (case s of
        [] \<Rightarrow> 0
      | c # cs \<Rightarrow>
          (if c = CHR ''-'' then (case unsigned_decimal cs of None \<Rightarrow> 0 | Some q \<Rightarrow> - q)
           else if c = CHR ''+'' then (case unsigned_decimal cs of None \<Rightarrow> 0 | Some q \<Rightarrow> q)
           else (case unsigned_decimal s of None \<Rightarrow> 0 | Some q \<Rightarrow> q)))"

definition status0 :: "rat PrinterStatus" where
  "status0 = \<lparr>extruderTemp = 0, extruderTargetTemp = 0, bedTemp = 0, bedTargetTemp = 0\<rparr>"

text \<open>The message of the spec's temperature scenario, and the same without the leading \<open>ok\<close>.\<close>

definition ok_report :: string where
  "ok_report = ''ok T:185.4 /185.0 B:60.5 /60.0''"

definition bare_report :: string where
  "bare_report = ''T:185.4 /185.0 B:60.5 /60.0''"

text \<open>
  A report whose four numerals are single-precision numbers, with the status it
  describes; the same report with more text after the fourth field; and the same report
  with two spaces after its first field.
\<close>

definition exact_report :: string where
  "exact_report = ''T:185.5 /185.0 B:60.5 /60.0''"

definition status_report :: "rat PrinterStatus" where
  "status_report =
     \<lparr>extruderTemp = 371 / 2, extruderTargetTemp = 185, bedTemp = 121 / 2, bedTargetTemp = 60\<rparr>"

definition long_report :: string where
  "long_report = ''T:185.5 /185.0 B:60.5 /60.0 @:0 B@:0''"

definition spaced_report :: string where
  "spaced_report = ''T:185.5  /185.0 B:60.5 /60.0''"

definition status_spaced :: "rat PrinterStatus" where
  "status_spaced =
     \<lparr>extruderTemp = 371 / 2, extruderTargetTemp = 0, bedTemp = 85, bedTargetTemp = 0\<rparr>"

section \<open>Tokens separated by whitespace\<close>

text \<open>
  The other reading of a token, which is not the plugin's: a longest block of characters
  none of which is whitespace (space, tab, line feed, vertical tab, form feed, carriage
  return), so that a run of whitespace separates as one space does and whitespace at
  the start of the line makes no token. It is here to be compared with \<open>split\<close>.
\<close>

definition is_whitespace :: "char \<Rightarrow> bool" where
  "is_whitespace c =
     (c = CHR '' '' \<or> c = CHR 0x09 \<or> c = CHR 0x0A \<or> c = CHR 0x0B \<or> c = CHR 0x0C
      \<or> c = CHR 0x0D)"

fun tokens_from :: "string \<Rightarrow> string \<Rightarrow> string list" where
  "tokens_from cur [] = (if cur = [] then [] else [cur])"
| "tokens_from cur (c # cs) =
     (if is_whitespace c then
        (if cur = [] then tokens_from [] cs else cur # tokens_from [] cs)
      else tokens_from (cur @ [c]) cs)"

definition whitespace_tokens :: "string \<Rightarrow> string list" where
  "whitespace_tokens s = tokens_from [] s"

section \<open>What the string operations compute\<close>

lemma starts_with_iff: "starts_with s p \<longleftrightarrow> (\<exists>r. s = p @ r)"
  by (induction s p rule: starts_with.induct) auto

text \<open>\<open>contains s sub\<close> holds exactly when \<open>sub\<close> occurs in \<open>s\<close> as a block.\<close>

lemma contains_iff: "contains s sub \<longleftrightarrow> (\<exists>pre post. s = pre @ sub @ post)"
proof (induction s)
  case Nil
  then show ?case by auto
next
  case (Cons c cs)
  show ?case
  proof
    assume "contains (c # cs) sub"
    then consider "starts_with (c # cs) sub" | "contains cs sub" by auto
    then show "\<exists>pre post. c # cs = pre @ sub @ post"
    proof cases
      case 1
      then obtain r where "c # cs = sub @ r" by (auto simp: starts_with_iff)
      then have "c # cs = [] @ sub @ r" by simp
      then show ?thesis by blast
    next
      case 2
      then obtain pre post where "cs = pre @ sub @ post" using Cons.IH by blast
      then have "c # cs = (c # pre) @ sub @ post" by simp
      then show ?thesis by blast
    qed
  next
    assume "\<exists>pre post. c # cs = pre @ sub @ post"
    then obtain pre post where e: "c # cs = pre @ sub @ post" by blast
    show "contains (c # cs) sub"
    proof (cases pre)
      case Nil
      with e have "starts_with (c # cs) sub" by (auto simp: starts_with_iff)
      then show ?thesis by simp
    next
      case (Cons p ps)
      with e have "cs = ps @ sub @ post" by simp
      then have "contains cs sub" using Cons.IH by blast
      then show ?thesis by simp
    qed
  qed
qed

lemma split_not_Nil: "split sep s \<noteq> []"
  by (induction s) (auto split: list.splits)

text \<open>
  \<open>split\<close> cuts at every separator and nowhere else: no part holds the separator, and
  the parts joined by it give the string back.
\<close>

lemma join_split: "join sep (split sep s) = s"
proof (induction s)
  case Nil
  then show ?case by simp
next
  case (Cons c cs)
  obtain w ws where sp: "split sep cs = w # ws"
    using split_not_Nil [of sep cs] by (cases "split sep cs") auto
  with Cons show ?case by (cases ws) auto
qed

lemma split_no_sep: "w \<in> set (split sep s) \<Longrightarrow> sep \<notin> set w"
proof (induction s arbitrary: w)
  case Nil
  then show ?case by simp
next
  case (Cons c cs)
  obtain v vs where sp: "split sep cs = v # vs"
    using split_not_Nil [of sep cs] by (cases "split sep cs") auto
  from Cons.prems sp Cons.IH show ?case
    by (auto split: if_splits)
qed

text \<open>Conversely, parts without the separator are what \<open>split\<close> finds in their join.\<close>

lemma split_single: "sep \<notin> set w \<Longrightarrow> split sep w = [w]"
  by (induction w) auto

lemma split_append_sep: "sep \<notin> set w \<Longrightarrow> split sep (w @ sep # r) = w # split sep r"
  by (induction w) auto

lemma split_join:
  "ws \<noteq> [] \<Longrightarrow> \<forall>w \<in> set ws. sep \<notin> set w \<Longrightarrow> split sep (join sep ws) = ws"
  by (induction sep ws rule: join.induct) (simp_all add: split_single split_append_sep)

lemma split_four_fields:
  assumes "CHR '' '' \<notin> set t1" "CHR '' '' \<notin> set t2" "CHR '' '' \<notin> set t3"
    "CHR '' '' \<notin> set t4"
  shows "split (CHR '' '')
           (t1 @ CHR '' '' # t2 @ CHR '' '' # t3 @ CHR '' '' # t4 @ CHR '' '' # rest)
         = t1 # t2 # t3 # t4 # split (CHR '' '') rest"
    and "split (CHR '' '') (t1 @ CHR '' '' # t2 @ CHR '' '' # t3 @ CHR '' '' # t4)
         = [t1, t2, t3, t4]"
  using assms by (simp_all add: split_single split_append_sep)

section \<open>The temperature parser\<close>

text \<open>
  \<open>extractTemp\<close> succeeds exactly on a message of at least four fields, and then every
  field of the status is overwritten from the message.
\<close>

lemma extractTemp_cases:
  "extractTemp toFloat m st =
     (if 4 \<le> length (split (CHR '' '') m) then
        Inr (\<lparr>extruderTemp = toFloat (mid 2 (split (CHR '' '') m ! 0)),
               extruderTargetTemp = toFloat (mid 1 (split (CHR '' '') m ! 1)),
               bedTemp = toFloat (mid 2 (split (CHR '' '') m ! 2)),
               bedTargetTemp = toFloat (mid 1 (split (CHR '' '') m ! 3))\<rparr>,
             [printerStatusChanged
               \<lparr>extruderTemp = toFloat (mid 2 (split (CHR '' '') m ! 0)),
                extruderTargetTemp = toFloat (mid 1 (split (CHR '' '') m ! 1)),
                bedTemp = toFloat (mid 2 (split (CHR '' '') m ! 2)),
                bedTargetTemp = toFloat (mid 1 (split (CHR '' '') m ! 3))\<rparr>])
      else Inl IndexOutOfRange)"
  by (simp add: extractTemp_def bindE_def at_index_def Let_def)

lemma extractTemp_short:
  "length (split (CHR '' '') m) < 4 \<Longrightarrow> extractTemp toFloat m st = Inl IndexOutOfRange"
  by (simp add: extractTemp_cases)

text \<open>
  Whatever follows the fourth field, spaces included, is not looked at, and neither is
  the status the parser starts from.
\<close>

lemma extractTemp_ignores_rest:
  assumes "CHR '' '' \<notin> set t1" "CHR '' '' \<notin> set t2" "CHR '' '' \<notin> set t3"
    "CHR '' '' \<notin> set t4"
  shows "extractTemp toFloat
           (t1 @ CHR '' '' # t2 @ CHR '' '' # t3 @ CHR '' '' # t4 @ CHR '' '' # rest) st
         = extractTemp toFloat (t1 @ CHR '' '' # t2 @ CHR '' '' # t3 @ CHR '' '' # t4) st'"
  by (simp add: extractTemp_def bindE_def at_index_def Let_def split_four_fields [OF assms])

lemma extractTemp_signal:
  "extractTemp toFloat m st = Inr (st', sigs) \<Longrightarrow> sigs = [printerStatusChanged st']"
  by (auto simp: extractTemp_cases split: if_splits)

text \<open>
  A message of at least four fields that holds the same temperatures as the status
  already does is announced all the same: the signal is emitted without a comparison.
\<close>

lemma validateCommand_report:
  assumes "contains m extruderTemp_token \<or> contains m bedTemp_token"
    and "4 \<le> length (split (CHR '' '') m)"
  shows "\<exists>st'. validateCommand toFloat m st = Inr (False, st', [printerStatusChanged st'])"
  using assms by (simp add: validateCommand_def extractTemp_cases)

lemma validateCommand_unchanged_report:
  assumes "contains m extruderTemp_token \<or> contains m bedTemp_token"
    and "extractTemp toFloat m st0 = Inr (st, sigs)"
  shows "validateCommand toFloat m st = Inr (False, st, [printerStatusChanged st])"
  using assms by (auto simp: validateCommand_def extractTemp_cases split: if_splits)

lemma validateCommand_short_report:
  assumes "contains m extruderTemp_token \<or> contains m bedTemp_token"
    and "length (split (CHR '' '') m) < 4"
  shows "validateCommand toFloat m st = Inl IndexOutOfRange"
  using assms by (simp add: validateCommand_def extractTemp_short)

lemma validateCommand_plain:
  assumes "\<not> contains m extruderTemp_token" and "\<not> contains m bedTemp_token"
  shows "validateCommand toFloat m st =
           Inr (contains m ok_token \<or> contains m wait_token, st, [])"
  using assms by (simp add: validateCommand_def)

lemma validateCommand_temperature_not_ready:
  assumes "contains m extruderTemp_token \<or> contains m bedTemp_token"
  shows "validateCommand toFloat m st \<noteq> Inr (True, st', sigs)"
  using assms by (simp add: validateCommand_def split: sum.splits)

section \<open>Bytes of a command\<close>

lemma unat_of_char: "unat (of_char c :: 8 word) = (of_char c :: nat)"
proof -
  have "(of_char c :: 8 word) = of_nat (of_char c)"
    by (simp add: of_nat_of_char)
  moreover have "(of_char c :: nat) < 256"
    by (rule nat_of_char_less_256)
  ultimately show ?thesis
    by (simp add: unat_of_nat take_bit_nat_eq_self)
qed

lemma of_char_word_eq_iff: "(of_char c :: 8 word) = of_char d \<longleftrightarrow> c = d"
proof
  assume "(of_char c :: 8 word) = of_char d"
  then have "unat (of_char c :: 8 word) = unat (of_char d :: 8 word)" by simp
  then have "(of_char c :: nat) = of_char d" by (simp only: unat_of_char)
  then show "c = d" by simp
qed simp

lemma newline_of_char: "newline = of_char (CHR 0x0A)"
  by (simp add: newline_def)

section \<open>The claims\<close>

subsection \<open>Replies with \<open>ok\<close> or \<open>wait\<close>\<close>

text \<open>
  Claim C1, as amended. A reply that contains \<open>ok\<close> or \<open>wait\<close> and neither \<open>T:\<close> nor
  \<open>B:\<close> is answered with true by \<open>readyForNextCommand\<close>, the status unchanged and no
  signal emitted. A reply that contains \<open>T:\<close> or \<open>B:\<close> is never answered with true,
  whether or not it also contains \<open>ok\<close> or \<open>wait\<close>: the temperature branch is taken
  first and falls through to \<open>return false\<close>.
\<close>

theorem readyForNextCommand_ok_or_wait:
  "((contains m ok_token \<or> contains m wait_token)
      \<and> \<not> contains m extruderTemp_token \<and> \<not> contains m bedTemp_token
      \<longrightarrow> readyForNextCommand toFloat m st = Inr (True, st, []))
   \<and> (contains m extruderTemp_token \<or> contains m bedTemp_token
      \<longrightarrow> readyForNextCommand toFloat m st \<noteq> Inr (True, st', sigs))"
  by (simp add: readyForNextCommand_def validateCommand_plain
        validateCommand_temperature_not_ready)

theorem readyForNextCommand_ok_or_wait_witness:
  "(contains ''ok'' ok_token \<or> contains ''ok'' wait_token)
   \<and> \<not> contains ''ok'' extruderTemp_token \<and> \<not> contains ''ok'' bedTemp_token
   \<and> readyForNextCommand toFloat_decimal ''ok'' status0 = Inr (True, status0, [])
   \<and> (contains ok_report extruderTemp_token \<or> contains ok_report bedTemp_token)
   \<and> readyForNextCommand toFloat_decimal ok_report status0 \<noteq> Inr (True, status0, [])"
proof -
  have plain: "(contains ''ok'' ok_token \<or> contains ''ok'' wait_token)
      \<and> \<not> contains ''ok'' extruderTemp_token \<and> \<not> contains ''ok'' bedTemp_token"
    by (simp add: ok_token_def wait_token_def extruderTemp_token_def bedTemp_token_def)
  have temp: "contains ok_report extruderTemp_token \<or> contains ok_report bedTemp_token"
    by (simp add: ok_report_def extruderTemp_token_def)
  from plain temp
    readyForNextCommand_ok_or_wait [of "''ok''" toFloat_decimal status0 status0 "[]"]
    readyForNextCommand_ok_or_wait [of ok_report toFloat_decimal status0 status0 "[]"]
  show ?thesis by blast
qed

text \<open>
  The claim as stated fails on the message of the spec's own temperature scenario: it
  contains \<open>ok\<close>, and the answer is false.
\<close>

theorem ok_with_temperature_counterexample:
  "contains ok_report ok_token
   \<and> readyForNextCommand toFloat_decimal ok_report status0 =
       Inr (False,
            \<lparr>extruderTemp = 0, extruderTargetTemp = 0, bedTemp = 85, bedTargetTemp = 0\<rparr>,
            [printerStatusChanged
               \<lparr>extruderTemp = 0, extruderTargetTemp = 0, bedTemp = 85, bedTargetTemp = 0\<rparr>])"
  by code_simp

text \<open>
  Claim C5, as amended. A reply that contains \<open>wait\<close>, no \<open>ok\<close> and no temperature token
  is answered with true by \<open>readyForNextCommand\<close>, which is its answer to the reply \<open>ok\<close>
  too, with the same status and no signal: the plugin does not tell a wait from an
  acknowledgement, and reports the printer ready for the next command on both.
\<close>

theorem readyForNextCommand_wait:
  assumes "contains m wait_token" and "\<not> contains m ok_token"
    and "\<not> contains m extruderTemp_token" and "\<not> contains m bedTemp_token"
  shows "readyForNextCommand toFloat m st = Inr (True, st, [])
         \<and> readyForNextCommand toFloat m st = readyForNextCommand toFloat ok_token st"
proof -
  have ok: "validateCommand toFloat ok_token st = Inr (True, st, [])"
    by (simp add: validateCommand_def ok_token_def extruderTemp_token_def bedTemp_token_def)
  from assms have "validateCommand toFloat m st = Inr (True, st, [])"
    by (simp add: validateCommand_plain)
  with ok show ?thesis by (simp add: readyForNextCommand_def)
qed

theorem readyForNextCommand_wait_witness:
  "contains ''wait'' wait_token \<and> \<not> contains ''wait'' ok_token
   \<and> \<not> contains ''wait'' extruderTemp_token \<and> \<not> contains ''wait'' bedTemp_token
   \<and> readyForNextCommand toFloat_decimal ''wait'' status0 = Inr (True, status0, [])
   \<and> readyForNextCommand toFloat_decimal ''wait'' status0 =
       readyForNextCommand toFloat_decimal ok_token status0"
proof -
  have h: "contains ''wait'' wait_token" "\<not> contains ''wait'' ok_token"
    "\<not> contains ''wait'' extruderTemp_token" "\<not> contains ''wait'' bedTemp_token"
    by (simp_all add: ok_token_def wait_token_def extruderTemp_token_def bedTemp_token_def)
  from h readyForNextCommand_wait [OF h, of toFloat_decimal status0]
  show ?thesis by blast
qed

theorem wait_is_ready_counterexample:
  "contains ''wait'' wait_token \<and> \<not> contains ''wait'' ok_token
   \<and> readyForNextCommand toFloat_decimal ''wait'' status0 = Inr (True, status0, [])"
  by code_simp

subsection \<open>The temperature report\<close>

text \<open>
  Claim C3. On the report \<open>ok T:185.4 /185.0 B:60.5 /60.0\<close> the fields 0 to 3 are
  \<open>ok\<close>, \<open>T:185.4\<close>, \<open>/185.0\<close> and \<open>B:60.5\<close>, so the strings converted are the empty
  string, \<open>:185.4\<close>, \<open>85.0\<close> and \<open>:60.5\<close>: the record becomes 0, 0, 85 and 0, not
  185.4, 185.0, 60.5 and 60.0. The fields are taken by position, one place to the left
  of where the source's comments put them; no field is located by its prefix.
\<close>

theorem extractTemp_ok_report:
  "extractTemp toFloat ok_report st =
     Inr (\<lparr>extruderTemp = toFloat '''', extruderTargetTemp = toFloat '':185.4'',
            bedTemp = toFloat ''85.0'', bedTargetTemp = toFloat '':60.5''\<rparr>,
          [printerStatusChanged
             \<lparr>extruderTemp = toFloat '''', extruderTargetTemp = toFloat '':185.4'',
              bedTemp = toFloat ''85.0'', bedTargetTemp = toFloat '':60.5''\<rparr>])
   \<and> extractTemp toFloat_decimal ok_report status0 =
       Inr (\<lparr>extruderTemp = 0, extruderTargetTemp = 0, bedTemp = 85, bedTargetTemp = 0\<rparr>,
            [printerStatusChanged
               \<lparr>extruderTemp = 0, extruderTargetTemp = 0, bedTemp = 85, bedTargetTemp = 0\<rparr>])"
proof
  show "extractTemp toFloat ok_report st =
     Inr (\<lparr>extruderTemp = toFloat '''', extruderTargetTemp = toFloat '':185.4'',
            bedTemp = toFloat ''85.0'', bedTargetTemp = toFloat '':60.5''\<rparr>,
          [printerStatusChanged
             \<lparr>extruderTemp = toFloat '''', extruderTargetTemp = toFloat '':185.4'',
              bedTemp = toFloat ''85.0'', bedTargetTemp = toFloat '':60.5''\<rparr>])"
    by (simp add: extractTemp_cases ok_report_def mid_def)
  show "extractTemp toFloat_decimal ok_report status0 =
       Inr (\<lparr>extruderTemp = 0, extruderTargetTemp = 0, bedTemp = 85, bedTargetTemp = 0\<rparr>,
            [printerStatusChanged
               \<lparr>extruderTemp = 0, extruderTargetTemp = 0, bedTemp = 85, bedTargetTemp = 0\<rparr>])"
    by code_simp
qed

text \<open>
  On the same report without the leading \<open>ok\<close> the strings converted are the four
  numerals of the spec: the positions are those of a report that starts at \<open>T:\<close>.
\<close>

lemma extractTemp_bare_report:
  "extractTemp toFloat bare_report st =
     Inr (\<lparr>extruderTemp = toFloat ''185.4'', extruderTargetTemp = toFloat ''185.0'',
            bedTemp = toFloat ''60.5'', bedTargetTemp = toFloat ''60.0''\<rparr>,
          [printerStatusChanged
             \<lparr>extruderTemp = toFloat ''185.4'', extruderTargetTemp = toFloat ''185.0'',
              bedTemp = toFloat ''60.5'', bedTargetTemp = toFloat ''60.0''\<rparr>])"
  by (simp add: extractTemp_cases bare_report_def mid_def)

text \<open>
  Claim C4. A reply with a temperature token and fewer than four fields, such as the
  truncated report \<open>T:185.4 /185.0\<close>, is not classified as ignored: \<open>extractTemp\<close>
  indexes the list of fields past its end, and the call fails.
\<close>

theorem validateCommand_truncated_report:
  "contains ''T:185.4 /185.0'' extruderTemp_token
   \<and> validateCommand toFloat ''T:185.4 /185.0'' st = Inl IndexOutOfRange
   \<and> readyForNextCommand toFloat ''T:185.4 /185.0'' st = Inl IndexOutOfRange"
proof -
  have c: "contains ''T:185.4 /185.0'' extruderTemp_token"
    by (simp add: extruderTemp_token_def)
  have l: "length (split (CHR '' '') ''T:185.4 /185.0'') < 4"
    by simp
  from c l have "validateCommand toFloat ''T:185.4 /185.0'' st = Inl IndexOutOfRange"
    by (simp add: validateCommand_short_report)
  with c show ?thesis by (simp add: readyForNextCommand_def)
qed

text \<open>
  Claim C8. Temperature parsing is idempotent: when \<open>extractTemp\<close> accepts a message and
  gives a status, parsing the same message again from that status gives the same status
  (and emits the same signal).
\<close>

theorem extractTemp_idempotent:
  "extractTemp toFloat m st = Inr (st1, sigs1) \<Longrightarrow> extractTemp toFloat m st1 = Inr (st1, sigs1)"
  by (auto simp: extractTemp_cases split: if_splits)

theorem extractTemp_idempotent_witness:
  "extractTemp toFloat_decimal exact_report status0 =
     Inr (status_report, [printerStatusChanged status_report])
   \<and> extractTemp toFloat_decimal exact_report status_report =
       Inr (status_report, [printerStatusChanged status_report])"
proof -
  have h: "extractTemp toFloat_decimal exact_report status0 =
     Inr (status_report, [printerStatusChanged status_report])"
    by code_simp
  from h extractTemp_idempotent [OF h] show ?thesis by simp
qed

text \<open>
  Claim C9. A reply with a temperature token does not always make the plugin emit
  \<open>printerStatusChanged\<close>: on a reply of fewer than four fields, such as \<open>B:60.5 /60.0\<close>,
  the call fails in \<open>extractTemp\<close> before the signal is reached. (On a reply of at least
  four fields the signal is emitted once, also when no value changes: see
  \<open>validateCommand_report\<close> and \<open>validateCommand_unchanged_report\<close>.)
\<close>

theorem validateCommand_bed_report:
  "contains ''B:60.5 /60.0'' bedTemp_token
   \<and> validateCommand toFloat ''B:60.5 /60.0'' st = Inl IndexOutOfRange"
proof -
  have c: "contains ''B:60.5 /60.0'' bedTemp_token"
    by (simp add: bedTemp_token_def)
  have l: "length (split (CHR '' '') ''B:60.5 /60.0'') < 4"
    by simp
  from c l show ?thesis by (simp add: validateCommand_short_report)
qed

text \<open>
  Claim C10, as amended. The result of \<open>extractTemp\<close> depends on the first four fields
  of the message only, a field being a part of the line between two space characters as
  \<open>split\<close> cuts it (two adjacent spaces or a space at the start make an empty field, and
  a tab does not separate): two messages with the same first four fields give the same
  result, from any two statuses, and what follows the fourth field is ignored (see also
  \<open>extractTemp_ignores_rest\<close>).
\<close>

theorem extractTemp_first_four_fields:
  assumes "take 4 (split (CHR '' '') m1) = take 4 (split (CHR '' '') m2)"
  shows "extractTemp toFloat m1 st1 = extractTemp toFloat m2 st2"
proof -
  let ?a = "split (CHR '' '') m1" and ?b = "split (CHR '' '') m2"
  from assms have "length (take 4 ?a) = length (take 4 ?b)" by simp
  then have len: "4 \<le> length ?a \<longleftrightarrow> 4 \<le> length ?b" by auto
  have nth: "?a ! i = ?b ! i" if "i < 4" for i
  proof -
    from that have "?a ! i = take 4 ?a ! i" and "?b ! i = take 4 ?b ! i" by simp_all
    with assms show ?thesis by simp
  qed
  have "?a ! 0 = ?b ! 0" "?a ! 1 = ?b ! 1" "?a ! 2 = ?b ! 2" "?a ! 3 = ?b ! 3"
    by (simp_all add: nth)
  with len show ?thesis by (simp add: extractTemp_cases)
qed

theorem extractTemp_first_four_fields_witness:
  "take 4 (split (CHR '' '') long_report) = take 4 (split (CHR '' '') exact_report)
   \<and> long_report \<noteq> exact_report
   \<and> extractTemp toFloat_decimal long_report status0 =
       extractTemp toFloat_decimal exact_report status_spaced"
proof -
  have h: "take 4 (split (CHR '' '') long_report) = take 4 (split (CHR '' '') exact_report)"
    by (simp add: long_report_def exact_report_def)
  have d: "long_report \<noteq> exact_report"
    by (simp add: long_report_def exact_report_def)
  from h d extractTemp_first_four_fields [OF h, of toFloat_decimal status0 status_spaced]
  show ?thesis by simp
qed

text \<open>
  The claim as stated, with tokens separated by whitespace, fails on two reports that
  differ in one space: both have the tokens \<open>T:185.5\<close>, \<open>/185.0\<close>, \<open>B:60.5\<close> and
  \<open>/60.0\<close>, but the second space makes an empty field 1 of \<open>split\<close>, and the records
  are 185.5, 0, 85, 0 on the one and 185.5, 185, 60.5, 60 on the other.
\<close>

lemma whitespace_tokens_reports:
  "whitespace_tokens spaced_report = [''T:185.5'', ''/185.0'', ''B:60.5'', ''/60.0'']"
  "whitespace_tokens exact_report = [''T:185.5'', ''/185.0'', ''B:60.5'', ''/60.0'']"
  "split (CHR '' '') spaced_report = [''T:185.5'', [], ''/185.0'', ''B:60.5'', ''/60.0'']"
  "split (CHR '' '') exact_report = [''T:185.5'', ''/185.0'', ''B:60.5'', ''/60.0'']"
  by (simp_all add: whitespace_tokens_def is_whitespace_def spaced_report_def
        exact_report_def)

theorem whitespace_tokens_counterexample:
  "take 4 (whitespace_tokens spaced_report) = take 4 (whitespace_tokens exact_report)
   \<and> extractTemp toFloat_decimal spaced_report status0 =
       Inr (status_spaced, [printerStatusChanged status_spaced])
   \<and> extractTemp toFloat_decimal exact_report status0 =
       Inr (status_report, [printerStatusChanged status_report])
   \<and> status_spaced \<noteq> status_report"
  by code_simp

subsection \<open>The bytes written for a command\<close>

text \<open>
  Claim C6, as amended. \<open>translate\<close> gives the local 8-bit encoding of the command and
  appends no terminator: the result is never the encoding followed by a newline, it has
  one byte for each character of the command, and it holds a newline byte only where the
  command holds a newline character.
\<close>

theorem translate_appends_nothing:
  "translate command = toLocal8Bit command
   \<and> translate command \<noteq> toLocal8Bit command @ [newline]
   \<and> length (translate command) = length command
   \<and> (newline \<in> set (translate command)) = (CHR 0x0A \<in> set command)"
  by (auto simp: translate_def toLocal8Bit_def newline_of_char of_char_word_eq_iff
        simp del: of_char_Char)

theorem translate_newline_counterexample:
  "translate ''M105'' = [0x4D, 0x31, 0x30, 0x35]
   \<and> translate ''M105'' \<noteq> toLocal8Bit ''M105'' @ [newline]"
  by (simp add: translate_def toLocal8Bit_def)

end
